theory Spec2Isabelle
  imports Main "HOL-Library.Sublist" "HOL-Library.AList_Mapping" "HOL-Library.Multiset"
begin

section \<open>The Jira issue-tracker integration\<close>

text \<open>
  A shallow embedding of \<^verbatim>\<open>v2/pkg/reporting/issues/jira/jira.go\<close>. Go strings are byte
  sequences, so they are \<^typ>\<open>string\<close> here (a list of 8-bit characters); the line feed
  written \<^verbatim>\<open>\n\<close> in the Go literals is \<open>\<newline>\<close> in the literals below.
\<close>

subsection \<open>Data\<close>

text \<open>\<^verbatim>\<open>Options\<close>: the configuration of the client.\<close>

record Options =
  URL :: string
  AccountID :: string
  Email :: string
  Token :: string
  ProjectName :: string
  IssueType :: string

text \<open>
  \<^verbatim>\<open>output.ResultEvent\<close>, with the fields that \<^verbatim>\<open>jira.go\<close> reads. The two Go maps are
  finite mappings from strings; a nil map and an empty map are both \<open>Mapping.empty\<close>
  (both have length 0 and range over nothing). \<open>'t\<close> stands for \<^verbatim>\<open>time.Time\<close> and \<open>'v\<close> for the
  \<^verbatim>\<open>interface{}\<close> values of the metadata. The fields of the event that this file does
  not read (the collaborators of package \<^verbatim>\<open>format\<close> do) live in the extension part of
  the record, so the functions below take a \<open>ResultEvent_scheme\<close>. The event is the
  value behind the (non-nil) pointer that the Go functions receive.
\<close>

record ('t, 'v) ResultEvent =
  Host :: string
  Type :: string
  Matched :: string
  Timestamp :: 't
  Info :: "(string, string) mapping"
  Request :: string
  Response :: string
  ExtractedResults :: "string list"
  Metadata :: "(string, 'v) mapping"

text \<open>
  The part of \<^verbatim>\<open>jira.Issue\<close> (package go-jira) that \<^verbatim>\<open>CreateIssue\<close> fills in; every
  other field of the Go structs keeps its zero value.
\<close>

record jira_User =
  AccountID :: string

record jira_IssueType =
  Name :: string

record jira_Project =
  Key :: string

record jira_IssueFields =
  Assignee :: jira_User
  Reporter :: jira_User
  Description :: string
  Type :: jira_IssueType
  Project :: jira_Project
  Summary :: string

record jira_Issue =
  Fields :: jira_IssueFields

text \<open>
  \<^verbatim>\<open>jira.Response\<close>: only \<^verbatim>\<open>Body\<close> is read. \<open>None\<close> is a nil body, \<open>Some d\<close> a body
  from which \<^verbatim>\<open>ioutil.ReadAll\<close> yields the bytes \<open>d\<close> (its error is discarded by the
  code).
\<close>

record jira_Response =
  Body :: "string option"

text \<open>
  \<^verbatim>\<open>Integration\<close>. The go-jira client is represented by what \<^verbatim>\<open>CreateIssue\<close> uses of
  it, the call \<^verbatim>\<open>Issue.Create\<close>: from the issue sent to the response (\<open>None\<close> is nil)
  and the error (\<open>None\<close> is nil, \<open>Some msg\<close> an error whose \<^verbatim>\<open>Error()\<close> text is
  \<open>msg\<close>). The created issue, which the code ignores, is left out.
\<close>

record Integration =
  jira :: "jira_Issue \<Rightarrow> jira_Response option \<times> string option"
  options :: Options

text \<open>
  The functions of other packages that the file calls, taken as parameters:
  \<^verbatim>\<open>format.Summary\<close>, \<^verbatim>\<open>format.GetMatchedTemplate\<close>, \<^verbatim>\<open>types.ToString\<close>,
  the method \<^verbatim>\<open>time.Time.Format\<close> (time, then layout), and \<^verbatim>\<open>unicode.ToUpper\<close>
  mapped over a string, which is what \<^verbatim>\<open>strings.ToUpper\<close> does to a string with a
  byte outside ASCII.
\<close>

record ('t, 'v, 'z) Collaborators =
  format_Summary :: "('t, 'v, 'z) ResultEvent_scheme \<Rightarrow> string"
  format_GetMatchedTemplate :: "('t, 'v, 'z) ResultEvent_scheme \<Rightarrow> string"
  types_ToString :: "'v \<Rightarrow> string"
  time_Format :: "'t \<Rightarrow> string \<Rightarrow> string"
  unicode_ToUpper :: "string \<Rightarrow> string"

subsection \<open>Library functions\<close>

text \<open>
  \<^verbatim>\<open>strings.ToUpper\<close>: a string of ASCII bytes has its letters \<^verbatim>\<open>a\<close> to \<^verbatim>\<open>z\<close> moved
  to \<^verbatim>\<open>A\<close> to \<^verbatim>\<open>Z\<close> (subtracting 32) and every other byte kept; any other string
  goes through the Unicode mapping.
\<close>

definition ascii_upper :: "char \<Rightarrow> char" where
  "ascii_upper c =
     (if (97::nat) \<le> of_char c \<and> of_char c \<le> (122::nat)
      then char_of (of_char c - (32::nat)) else c)"

definition strings_ToUpper :: "(string \<Rightarrow> string) \<Rightarrow> string \<Rightarrow> string" where
  "strings_ToUpper unicodeUpper s =
     (if list_all (\<lambda>c. of_char c < (128::nat)) s then map ascii_upper s
      else unicodeUpper s)"

text \<open>\<^verbatim>\<open>(*bytes.Buffer).WriteString\<close>: the buffer with the string appended.\<close>

definition WriteString :: "string \<Rightarrow> string \<Rightarrow> string" where
  "WriteString s builder = builder @ s"

text \<open>\<^verbatim>\<open>fmt.Sprintf("| %s | %s |\n", k, v)\<close> on two strings.\<close>

definition Sprintf_row :: "string \<Rightarrow> string \<Rightarrow> string" where
  "Sprintf_row k v = ''| '' @ k @ '' | '' @ v @ '' |\<newline>''"

text \<open>\<^verbatim>\<open>fmt.Errorf("%s => %s", err, data)\<close>: the text of the error it builds.\<close>

definition Errorf :: "string \<Rightarrow> string \<Rightarrow> string" where
  "Errorf err data = err @ '' => '' @ data"

text \<open>
  \<^verbatim>\<open>for k, v := range m\<close> visits every entry of the map once, in an order that Go
  leaves unspecified and that may change from one loop to the next. A loop over a map
  therefore takes the order of its visit as an argument: a list of entries that
  \<open>range_order\<close> accepts for the map, that is, a list without a repeated key that holds
  the entries of the map. \<^verbatim>\<open>len(m) > 0\<close> is \<open>\<not> Mapping.is_empty m\<close>.
\<close>

definition range_order :: "('k, 'a) mapping \<Rightarrow> ('k \<times> 'a) list \<Rightarrow> bool" where
  "range_order m kvs \<longleftrightarrow> distinct (map fst kvs) \<and> Mapping kvs = m"

subsection \<open>The description formatter\<close>

text \<open>The three loops of \<^verbatim>\<open>jiraFormatDescription\<close>, on the buffer.\<close>

fun write_Info :: "(string \<times> string) list \<Rightarrow> string \<Rightarrow> string" where
  "write_Info [] builder = builder"
| "write_Info ((k, v) # kvs) builder =
     write_Info kvs (WriteString (Sprintf_row k v) builder)"

fun write_ExtractedResults :: "string list \<Rightarrow> string \<Rightarrow> string" where
  "write_ExtractedResults [] builder = builder"
| "write_ExtractedResults (v # vs) builder =
     write_ExtractedResults vs
       (WriteString ''\<newline>'' (WriteString v (WriteString ''- '' builder)))"

fun write_Metadata :: "('v \<Rightarrow> string) \<Rightarrow> (string \<times> 'v) list \<Rightarrow> string \<Rightarrow> string" where
  "write_Metadata toString [] builder = builder"
| "write_Metadata toString ((k, v) # kvs) builder =
     write_Metadata toString kvs
       (WriteString ''\<newline>'' (WriteString (toString v)
         (WriteString '': '' (WriteString k (WriteString ''- '' builder)))))"

text \<open>
  \<^verbatim>\<open>jiraFormatDescription\<close>, statement by statement. \<open>infoOrder\<close> and
  \<open>metadataOrder\<close> are the orders in which the two \<^verbatim>\<open>range\<close> loops visit
  \<^verbatim>\<open>event.Info\<close> and \<^verbatim>\<open>event.Metadata\<close>.
\<close>

definition jiraFormatDescription ::
  "('t, 'v, 'z) Collaborators \<Rightarrow> (string \<times> string) list \<Rightarrow> (string \<times> 'v) list \<Rightarrow>
   ('t, 'v, 'z) ResultEvent_scheme \<Rightarrow> string" where
  "jiraFormatDescription ext infoOrder metadataOrder event =
     (let template = format_GetMatchedTemplate ext event;
          builder = [];
          builder = WriteString ''*Details*: *'' builder;
          builder = WriteString template builder;
          builder = WriteString ''* '' builder;
          builder = WriteString '' matched at '' builder;
          builder = WriteString (Host event) builder;
          builder = WriteString ''\<newline>\<newline>*Protocol*: '' builder;
          builder = WriteString
            (strings_ToUpper (unicode_ToUpper ext) (ResultEvent.Type event)) builder;
          builder = WriteString ''\<newline>\<newline>*Full URL*: '' builder;
          builder = WriteString (Matched event) builder;
          builder = WriteString ''\<newline>\<newline>*Timestamp*: '' builder;
          builder = WriteString
            (time_Format ext (Timestamp event) ''Mon Jan 2 15:04:05 -0700 MST 2006'')
            builder;
          builder = WriteString
            ''\<newline>\<newline>*Template Information*\<newline>\<newline>| Key | Value |\<newline>'' builder;
          builder = write_Info infoOrder builder;
          builder = WriteString ''\<newline>*Request*\<newline>\<newline>{code}\<newline>'' builder;
          builder = WriteString (Request event) builder;
          builder = WriteString
            ''\<newline>{code}\<newline>\<newline>*Response*\<newline>\<newline>{code}\<newline>'' builder;
          builder = WriteString (Response event) builder;
          builder = WriteString ''\<newline>{code}\<newline>\<newline>'' builder;
          builder =
            (if ExtractedResults event \<noteq> [] \<or> \<not> Mapping.is_empty (Metadata event) then
               let builder = WriteString ''*Extra Information*\<newline>\<newline>'' builder;
                   builder =
                     (if ExtractedResults event \<noteq> [] then
                        let builder = WriteString ''*Extracted results*:\<newline>\<newline>'' builder;
                            builder = write_ExtractedResults (ExtractedResults event) builder
                        in WriteString ''\<newline>'' builder
                      else builder)
               in (if \<not> Mapping.is_empty (Metadata event) then
                     let builder = WriteString ''*Metadata*:\<newline>\<newline>'' builder;
                         builder = write_Metadata (types_ToString ext) metadataOrder builder
                     in WriteString ''\<newline>'' builder
                   else builder)
             else builder);
          data = builder
      in data)"

subsection \<open>Creating the issue\<close>

text \<open>
  The variable \<^verbatim>\<open>data\<close> of \<^verbatim>\<open>CreateIssue\<close>: empty, and when the response and its body
  are not nil, everything that \<^verbatim>\<open>ioutil.ReadAll\<close> reads from the body.
\<close>

definition response_data :: "jira_Response option \<Rightarrow> string" where
  "response_data resp =
     (case resp of
        Some r \<Rightarrow> (case Body r of Some d \<Rightarrow> d | None \<Rightarrow> [])
      | None \<Rightarrow> [])"

text \<open>
  \<^verbatim>\<open>CreateIssue\<close>. The result is the issue handed to \<^verbatim>\<open>Issue.Create\<close> (the one remote
  call, the effect of the function) and the returned error: \<open>None\<close> is nil, \<open>Some text\<close>
  an error with that text.
\<close>

definition CreateIssue ::
  "Integration \<Rightarrow> ('t, 'v, 'z) Collaborators \<Rightarrow> (string \<times> string) list \<Rightarrow>
   (string \<times> 'v) list \<Rightarrow> ('t, 'v, 'z) ResultEvent_scheme \<Rightarrow> jira_Issue \<times> string option" where
  "CreateIssue i ext infoOrder metadataOrder event =
     (let summary = format_Summary ext event;
          issueData = \<lparr>Fields = \<lparr>
            Assignee = \<lparr>jira_User.AccountID = Options.AccountID (options i)\<rparr>,
            Reporter = \<lparr>jira_User.AccountID = Options.AccountID (options i)\<rparr>,
            Description = jiraFormatDescription ext infoOrder metadataOrder event,
            jira_IssueFields.Type = \<lparr>Name = IssueType (options i)\<rparr>,
            Project = \<lparr>Key = ProjectName (options i)\<rparr>,
            Summary = summary\<rparr>\<rparr>;
          (resp, err) = jira i issueData
      in (issueData,
          case err of
            Some e \<Rightarrow> Some (Errorf e (response_data resp))
          | None \<Rightarrow> None))"

subsection \<open>The sections of the description\<close>

text \<open>
  The specification describes the description as a sequence of sections. Each section
  is named here, as the text it stands for; \<open>jiraFormatDescription_sections\<close> below
  shows that the buffer written by \<open>jiraFormatDescription\<close> is these texts in this
  order, two line feeds apart; after the table, whose rows each end in a line feed, a
  single line feed comes before the request block.
\<close>

definition Header_line ::
  "('t, 'v, 'z) Collaborators \<Rightarrow> ('t, 'v, 'z) ResultEvent_scheme \<Rightarrow> string" where
  "Header_line ext event =
     ''*Details*: *'' @ format_GetMatchedTemplate ext event @ ''*  matched at '' @ Host event"

definition Protocol_line ::
  "('t, 'v, 'z) Collaborators \<Rightarrow> ('t, 'v, 'z) ResultEvent_scheme \<Rightarrow> string" where
  "Protocol_line ext event =
     ''*Protocol*: '' @ strings_ToUpper (unicode_ToUpper ext) (ResultEvent.Type event)"

definition Full_URL_line :: "('t, 'v, 'z) ResultEvent_scheme \<Rightarrow> string" where
  "Full_URL_line event = ''*Full URL*: '' @ Matched event"

definition Timestamp_line ::
  "('t, 'v, 'z) Collaborators \<Rightarrow> ('t, 'v, 'z) ResultEvent_scheme \<Rightarrow> string" where
  "Timestamp_line ext event =
     ''*Timestamp*: '' @
     time_Format ext (Timestamp event) ''Mon Jan 2 15:04:05 -0700 MST 2006''"

definition Template_Information :: "(string \<times> string) list \<Rightarrow> string" where
  "Template_Information infoOrder =
     ''*Template Information*\<newline>\<newline>| Key | Value |\<newline>'' @
     concat (map (\<lambda>(k, v). ''| '' @ k @ '' | '' @ v @ '' |\<newline>'') infoOrder)"

definition Request_block :: "('t, 'v, 'z) ResultEvent_scheme \<Rightarrow> string" where
  "Request_block event =
     ''*Request*\<newline>\<newline>{code}\<newline>'' @ Request event @ ''\<newline>{code}''"

definition Response_block :: "('t, 'v, 'z) ResultEvent_scheme \<Rightarrow> string" where
  "Response_block event =
     ''*Response*\<newline>\<newline>{code}\<newline>'' @ Response event @ ''\<newline>{code}''"

definition Extracted_results_list :: "('t, 'v, 'z) ResultEvent_scheme \<Rightarrow> string" where
  "Extracted_results_list event =
     (if ExtractedResults event = [] then []
      else ''*Extracted results*:\<newline>\<newline>'' @
           concat (map (\<lambda>v. ''- '' @ v @ ''\<newline>'') (ExtractedResults event)) @
           ''\<newline>'')"

definition Metadata_list ::
  "('t, 'v, 'z) Collaborators \<Rightarrow> (string \<times> 'v) list \<Rightarrow>
   ('t, 'v, 'z) ResultEvent_scheme \<Rightarrow> string" where
  "Metadata_list ext metadataOrder event =
     (if Mapping.is_empty (Metadata event) then []
      else ''*Metadata*:\<newline>\<newline>'' @
           concat (map (\<lambda>(k, v). ''- '' @ k @ '': '' @ types_ToString ext v @ ''\<newline>'')
             metadataOrder) @
           ''\<newline>'')"

definition Extra_Information ::
  "('t, 'v, 'z) Collaborators \<Rightarrow> (string \<times> 'v) list \<Rightarrow>
   ('t, 'v, 'z) ResultEvent_scheme \<Rightarrow> string" where
  "Extra_Information ext metadataOrder event =
     (if ExtractedResults event = [] \<and> Mapping.is_empty (Metadata event) then []
      else ''*Extra Information*\<newline>\<newline>'' @ Extracted_results_list event @
           Metadata_list ext metadataOrder event)"

subsection \<open>Concrete inputs\<close>

text \<open>
  Collaborators for the examples: a fixed template name, a summary made of it and the
  host, metadata values that are strings already, and a clock whose only instant is
  Go's reference time, which a layout renders as the layout's own text.
\<close>

definition example_ext :: "(unit, string, unit) Collaborators" where
  "example_ext =
     \<lparr>format_Summary = (\<lambda>e. ''[tech-detect] '' @ Host e),
      format_GetMatchedTemplate = (\<lambda>e. ''tech-detect''),
      types_ToString = (\<lambda>v. v),
      time_Format = (\<lambda>t layout. layout),
      unicode_ToUpper = (\<lambda>s. s)\<rparr>"

text \<open>An event with two entries of template information, two results, one metadatum.\<close>

definition example_event :: "(unit, string) ResultEvent" where
  "example_event =
     \<lparr>Host = ''example.com'', ResultEvent.Type = ''http'',
      Matched = ''https://example.com/x'', Timestamp = (),
      Info = Mapping [(''name'', ''Tech''), (''severity'', ''info'')],
      Request = ''GET /x HTTP/1.1'', Response = ''HTTP/1.1 200 OK'',
      ExtractedResults = [''nginx'', ''php''],
      Metadata = Mapping [(''port'', ''443'')]\<rparr>"

text \<open>The same event with one entry of template information.\<close>

definition single_entry_event :: "(unit, string) ResultEvent" where
  "single_entry_event = example_event\<lparr>Info := Mapping [(''severity'', ''info'')]\<rparr>"

text \<open>
  An event without template information, results or metadata, whose request and
  response hold markup of the tracker.
\<close>

definition markup_event :: "(unit, string) ResultEvent" where
  "markup_event =
     \<lparr>Host = ''example.com'', ResultEvent.Type = ''dns'',
      Matched = ''example.com'', Timestamp = (),
      Info = Mapping [],
      Request = ''*Extra Information*'', Response = ''{code}|x|*y*'',
      ExtractedResults = [],
      Metadata = Mapping []\<rparr>"

text \<open>
  An event whose type is not ASCII, the letter \<^verbatim>\<open>e\<close> with an acute accent in UTF-8
  (bytes C3 A9), and collaborators whose Unicode mapping knows the capital of that
  letter (bytes C3 89).
\<close>

definition accented_ext :: "(unit, string, unit) Collaborators" where
  "accented_ext =
     example_ext\<lparr>unicode_ToUpper :=
       (\<lambda>s. if s = [CHR 0xC3, CHR 0xA9] then [CHR 0xC3, CHR 0x89] else s)\<rparr>"

definition accented_event :: "(unit, string) ResultEvent" where
  "accented_event = example_event\<lparr>ResultEvent.Type := [CHR 0xC3, CHR 0xA9]\<rparr>"

text \<open>
  The configuration of the examples, a client whose remote call fails before any
  response arrives, and one whose call fails with a response that has a body.
\<close>

definition example_options :: Options where
  "example_options =
     \<lparr>URL = ''https://jira.example.com'', Options.AccountID = ''5b10a2844c20165700ede21g'',
      Email = ''user@example.com'', Token = ''secret'',
      ProjectName = ''SEC'', IssueType = ''Bug''\<rparr>"

definition unreachable_integration :: Integration where
  "unreachable_integration =
     \<lparr>jira = (\<lambda>issue. (None, Some ''dial tcp: connection refused'')),
      options = example_options\<rparr>"

definition rejecting_integration :: Integration where
  "rejecting_integration =
     \<lparr>jira = (\<lambda>issue.
        (Some \<lparr>Body = Some ''{\"errorMessages\":[\"bad project\"]}''\<rparr>,
         Some ''request failed. Status code: 400'')),
      options = example_options\<rparr>"

section \<open>Properties\<close>

subsection \<open>The loops and the orders of a map\<close>

text \<open>Each loop appends to the buffer one piece of text for each element it visits.\<close>

lemma write_Info_eq:
  "write_Info kvs builder =
     builder @ concat (map (\<lambda>(k, v). ''| '' @ k @ '' | '' @ v @ '' |\<newline>'') kvs)"
  by (induction kvs arbitrary: builder) (auto simp: WriteString_def Sprintf_row_def)

lemma write_ExtractedResults_eq:
  "write_ExtractedResults vs builder = builder @ concat (map (\<lambda>v. ''- '' @ v @ ''\<newline>'') vs)"
  by (induction vs arbitrary: builder) (auto simp: WriteString_def)

lemma write_Metadata_eq:
  "write_Metadata toString kvs builder =
     builder @ concat (map (\<lambda>(k, v). ''- '' @ k @ '': '' @ toString v @ ''\<newline>'') kvs)"
  by (induction kvs arbitrary: builder) (auto simp: WriteString_def)

lemma jiraFormatDescription_sections:
  "jiraFormatDescription ext infoOrder metadataOrder event =
     Header_line ext event @ ''\<newline>\<newline>'' @
     Protocol_line ext event @ ''\<newline>\<newline>'' @
     Full_URL_line event @ ''\<newline>\<newline>'' @
     Timestamp_line ext event @ ''\<newline>\<newline>'' @
     Template_Information infoOrder @ ''\<newline>'' @
     Request_block event @ ''\<newline>\<newline>'' @
     Response_block event @ ''\<newline>\<newline>'' @
     Extra_Information ext metadataOrder event"
  by (simp add: jiraFormatDescription_def Let_def WriteString_def write_Info_eq
      write_ExtractedResults_eq write_Metadata_eq Header_line_def Protocol_line_def
      Full_URL_line_def Timestamp_line_def Template_Information_def Request_block_def
      Response_block_def Extra_Information_def Extracted_results_list_def Metadata_list_def)

lemma range_order_is_empty: "range_order m kvs \<Longrightarrow> Mapping.is_empty m \<longleftrightarrow> kvs = []"
  by (auto simp: range_order_def is_empty_Mapping)

lemma range_order_entries: "range_order m kvs \<Longrightarrow> set kvs = Mapping.entries m"
  by (auto simp: range_order_def entries_Mapping distinct_clearjunk_id)

lemma range_order_distinct: "range_order m kvs \<Longrightarrow> distinct kvs"
  by (auto simp: range_order_def distinct_map)

lemma range_order_length: "range_order m kvs \<Longrightarrow> length kvs = Mapping.size m"
  by (auto simp: range_order_def size_Mapping distinct_remdups_id)

lemma range_order_mset: "range_order m xs \<Longrightarrow> range_order m ys \<Longrightarrow> mset xs = mset ys"
  by (simp add: range_order_distinct range_order_entries set_eq_iff_mset_eq_distinct[symmetric])

lemma range_order_unique:
  assumes "range_order m xs" "range_order m ys" "Mapping.size m \<le> 1"
  shows "xs = ys"
proof -
  have l: "length xs \<le> 1" "length ys \<le> 1"
    using assms by (simp_all add: range_order_length)
  have s: "set xs = set ys" using assms by (simp add: range_order_entries)
  show ?thesis
  proof (cases xs)
    case Nil
    then show ?thesis using s by simp
  next
    case (Cons x xs')
    then have "xs = [x]" using l by simp
    moreover obtain y where "ys = [y]" using s l Cons by (cases ys) auto
    ultimately show ?thesis using s by simp
  qed
qed

lemma sublist_between: "sublist x y \<Longrightarrow> sublist x (a @ y @ b)"
proof -
  assume "sublist x y"
  then obtain p s where "y = p @ x @ s" by (auto simp: sublist_def)
  then have "a @ y @ b = (a @ p) @ x @ (s @ b)" by simp
  then show ?thesis unfolding sublist_def by blast
qed

lemma sublist_concat_map: "x \<in> set xs \<Longrightarrow> sublist (f x) (concat (map f xs))"
  by (auto dest!: split_list)

lemma mset_concat_map: "mset (concat (map f xs)) = (\<Sum>x\<in>#mset xs. mset (f x))"
  by (induction xs) auto

text \<open>
  \<open>ascii_upper\<close> as a table: the bytes 97 to 122 are the letters \<^verbatim>\<open>a\<close> to \<^verbatim>\<open>z\<close>, each
  of them goes to its capital, and every other byte stays.
\<close>

lemma lower_case_bytes:
  assumes "(97::nat) \<le> of_char c" and "of_char c \<le> (122::nat)"
  shows "c \<in> set ''abcdefghijklmnopqrstuvwxyz''"
proof -
  have "(of_char c :: nat) \<in> {97..<123}" using assms by auto
  then have "(of_char c :: nat) \<in> set [97..<123]" by (simp only: set_upt)
  then have "char_of (of_char c :: nat) \<in> set (map char_of [97..<123::nat])"
    by (simp only: set_map) (rule imageI)
  moreover have "map char_of [97..<123::nat] = ''abcdefghijklmnopqrstuvwxyz''"
    by code_simp
  ultimately show ?thesis by simp
qed

lemma ascii_upper_lower_case:
  "list_all (\<lambda>c. ascii_upper c =
      (case map_of (zip ''abcdefghijklmnopqrstuvwxyz'' ''ABCDEFGHIJKLMNOPQRSTUVWXYZ'') c of
         Some C \<Rightarrow> C | None \<Rightarrow> c) \<and> (97::nat) \<le> of_char c \<and> of_char c \<le> (122::nat))
     ''abcdefghijklmnopqrstuvwxyz''"
  by code_simp

lemma ascii_upper_table:
  "ascii_upper c =
     (case map_of (zip ''abcdefghijklmnopqrstuvwxyz'' ''ABCDEFGHIJKLMNOPQRSTUVWXYZ'') c of
        Some C \<Rightarrow> C | None \<Rightarrow> c)"
proof (cases "c \<in> set ''abcdefghijklmnopqrstuvwxyz''")
  case True
  with ascii_upper_lower_case show ?thesis
    unfolding list_all_iff by blast
next
  case False
  then have "\<not> ((97::nat) \<le> of_char c \<and> of_char c \<le> (122::nat))"
    using lower_case_bytes by blast
  then have l: "ascii_upper c = c" unfolding ascii_upper_def by (rule if_not_P)
  have "c \<notin> fst ` set (zip ''abcdefghijklmnopqrstuvwxyz'' ''ABCDEFGHIJKLMNOPQRSTUVWXYZ'')"
    using False by (auto dest: set_zip_leftD)
  then have "map_of (zip ''abcdefghijklmnopqrstuvwxyz'' ''ABCDEFGHIJKLMNOPQRSTUVWXYZ'') c = None"
    by (simp only: map_of_eq_None_iff not_False_eq_True)
  then show ?thesis using l by simp
qed

text \<open>\<^verbatim>\<open>strings.ToUpper\<close> on a concrete type, evaluated.\<close>

lemma strings_ToUpper_http: "strings_ToUpper u ''http'' = ''HTTP''"
  by code_simp

subsection \<open>The table of template information\<close>

text \<open>
  Claim C1. The description holds exactly one table row for each entry of
  \<^verbatim>\<open>event.Info\<close>, each written \<^verbatim>\<open>| key | value |\<close> and ended by a line feed. For every
  order \<open>infoOrder\<close> in which the loop may visit the map: between the header row of the
  table and the line feed before the request block stand the rows of the entries of
  \<open>infoOrder\<close>, one after the other and nothing else; \<open>infoOrder\<close> has as many
  elements as the map has entries, repeats none, and its elements are the entries of
  the map; and the row of every entry is a substring of the description. The claim's
  condition that the map is not empty is not needed.
\<close>

theorem Info_table_rows:
  assumes "range_order (Info event) infoOrder"
  shows "jiraFormatDescription ext infoOrder metadataOrder event =
           Header_line ext event @ ''\<newline>\<newline>'' @
           Protocol_line ext event @ ''\<newline>\<newline>'' @
           Full_URL_line event @ ''\<newline>\<newline>'' @
           Timestamp_line ext event @
           ''\<newline>\<newline>*Template Information*\<newline>\<newline>| Key | Value |\<newline>'' @
           concat (map (\<lambda>(k, v). ''| '' @ k @ '' | '' @ v @ '' |\<newline>'') infoOrder) @
           ''\<newline>'' @
           Request_block event @ ''\<newline>\<newline>'' @
           Response_block event @ ''\<newline>\<newline>'' @
           Extra_Information ext metadataOrder event
         \<and> length infoOrder = Mapping.size (Info event)
         \<and> distinct infoOrder
         \<and> set infoOrder = Mapping.entries (Info event)
         \<and> (\<forall>(k, v) \<in> Mapping.entries (Info event).
               sublist (''| '' @ k @ '' | '' @ v @ '' |\<newline>'')
                 (jiraFormatDescription ext infoOrder metadataOrder event))"
proof -
  let ?row = "\<lambda>(k, v). ''| '' @ k @ '' | '' @ v @ '' |\<newline>''"
  let ?d = "jiraFormatDescription ext infoOrder metadataOrder event"
  have whole: "?d =
      Header_line ext event @ ''\<newline>\<newline>'' @
      Protocol_line ext event @ ''\<newline>\<newline>'' @
      Full_URL_line event @ ''\<newline>\<newline>'' @
      Timestamp_line ext event @
      ''\<newline>\<newline>*Template Information*\<newline>\<newline>| Key | Value |\<newline>'' @
      concat (map ?row infoOrder) @
      ''\<newline>'' @
      Request_block event @ ''\<newline>\<newline>'' @
      Response_block event @ ''\<newline>\<newline>'' @
      Extra_Information ext metadataOrder event"
    by (simp add: jiraFormatDescription_sections Template_Information_def)
  have entries: "set infoOrder = Mapping.entries (Info event)"
    using assms by (rule range_order_entries)
  have "sublist (?row kv) ?d" if "kv \<in> set infoOrder" for kv
  proof -
    have "sublist (?row kv) (concat (map ?row infoOrder))"
      using that by (rule sublist_concat_map)
    then have "sublist (?row kv)
        ((Header_line ext event @ ''\<newline>\<newline>'' @
          Protocol_line ext event @ ''\<newline>\<newline>'' @
          Full_URL_line event @ ''\<newline>\<newline>'' @
          Timestamp_line ext event @
          ''\<newline>\<newline>*Template Information*\<newline>\<newline>| Key | Value |\<newline>'') @
         concat (map ?row infoOrder) @
         (''\<newline>'' @
          Request_block event @ ''\<newline>\<newline>'' @
          Response_block event @ ''\<newline>\<newline>'' @
          Extra_Information ext metadataOrder event))"
      by (rule sublist_between)
    then show ?thesis by (simp add: whole)
  qed
  then have rows: "\<forall>(k, v) \<in> Mapping.entries (Info event).
      sublist (''| '' @ k @ '' | '' @ v @ '' |\<newline>'') ?d"
    unfolding entries [symmetric] by fastforce
  show ?thesis
    using whole assms rows entries
    by (simp only: range_order_length range_order_distinct simp_thms)
qed

theorem Info_table_rows_witness:
  "range_order (Info example_event) [(''severity'', ''info''), (''name'', ''Tech'')]
   \<and> jiraFormatDescription example_ext [(''severity'', ''info''), (''name'', ''Tech'')]
        [(''port'', ''443'')] example_event =
      Header_line example_ext example_event @ ''\<newline>\<newline>'' @
      Protocol_line example_ext example_event @ ''\<newline>\<newline>'' @
      Full_URL_line example_event @ ''\<newline>\<newline>'' @
      Timestamp_line example_ext example_event @
      ''\<newline>\<newline>*Template Information*\<newline>\<newline>| Key | Value |\<newline>| severity | info |\<newline>| name | Tech |\<newline>\<newline>'' @
      Request_block example_event @ ''\<newline>\<newline>'' @
      Response_block example_event @ ''\<newline>\<newline>'' @
      Extra_Information example_ext [(''port'', ''443'')] example_event
   \<and> Mapping.size (Info example_event) = 2"
proof -
  have h: "range_order (Info example_event) [(''severity'', ''info''), (''name'', ''Tech'')]"
    by code_simp
  show ?thesis
    using h Info_table_rows [OF h, of example_ext "[(''port'', ''443'')]"] by simp
qed


subsection \<open>The section of extra information\<close>

text \<open>
  Claim C2, as stated, says that the substring \<^verbatim>\<open>*Extra Information*\<close> is absent from
  the description of an event without extracted results and without metadata. The
  request text is written into the description as it is, so an event whose request
  holds that substring has it in its description.
\<close>

theorem Extra_Information_substring_counterexample:
  "ExtractedResults markup_event = []
   \<and> Mapping.is_empty (Metadata markup_event)
   \<and> range_order (Info markup_event) []
   \<and> range_order (Metadata markup_event) []
   \<and> sublist ''*Extra Information*'' (jiraFormatDescription example_ext [] [] markup_event)"
  by code_simp

text \<open>
  Claim C2, amended. For an event without extracted results and without metadata the
  formatter writes nothing after the response block: the description is the header,
  protocol, URL and timestamp lines, the table, the request block and the response
  block, and it ends with the closing fence of the response and two line feeds. No
  heading of extra information is written; the substring can come only from these
  seven sections.
\<close>

theorem no_Extra_Information_section:
  assumes "ExtractedResults event = []" and "Mapping.is_empty (Metadata event)"
  shows "jiraFormatDescription ext infoOrder metadataOrder event =
           Header_line ext event @ ''\<newline>\<newline>'' @
           Protocol_line ext event @ ''\<newline>\<newline>'' @
           Full_URL_line event @ ''\<newline>\<newline>'' @
           Timestamp_line ext event @ ''\<newline>\<newline>'' @
           Template_Information infoOrder @ ''\<newline>'' @
           Request_block event @ ''\<newline>\<newline>'' @
           ''*Response*\<newline>\<newline>{code}\<newline>'' @ Response event @ ''\<newline>{code}\<newline>\<newline>''"
  using assms
  by (simp add: jiraFormatDescription_sections Extra_Information_def Response_block_def)

theorem no_Extra_Information_section_witness:
  "ExtractedResults markup_event = []
   \<and> Mapping.is_empty (Metadata markup_event)
   \<and> jiraFormatDescription example_ext [] [] markup_event =
       ''*Details*: *tech-detect*  matched at example.com\<newline>\<newline>*Protocol*: DNS\<newline>\<newline>*Full URL*: example.com\<newline>\<newline>*Timestamp*: Mon Jan 2 15:04:05 -0700 MST 2006\<newline>\<newline>*Template Information*\<newline>\<newline>| Key | Value |\<newline>\<newline>*Request*\<newline>\<newline>{code}\<newline>*Extra Information*\<newline>{code}\<newline>\<newline>*Response*\<newline>\<newline>{code}\<newline>{code}|x|*y*\<newline>{code}\<newline>\<newline>''"
proof -
  have h1: "ExtractedResults markup_event = []" by (simp add: markup_event_def)
  have h2: "Mapping.is_empty (Metadata markup_event)" by code_simp
  have "jiraFormatDescription example_ext [] [] markup_event =
       ''*Details*: *tech-detect*  matched at example.com\<newline>\<newline>*Protocol*: DNS\<newline>\<newline>*Full URL*: example.com\<newline>\<newline>*Timestamp*: Mon Jan 2 15:04:05 -0700 MST 2006\<newline>\<newline>*Template Information*\<newline>\<newline>| Key | Value |\<newline>\<newline>*Request*\<newline>\<newline>{code}\<newline>*Extra Information*\<newline>{code}\<newline>\<newline>*Response*\<newline>\<newline>{code}\<newline>{code}|x|*y*\<newline>{code}\<newline>\<newline>''"
    unfolding no_Extra_Information_section [OF h1 h2] by code_simp
  with h1 h2 show ?thesis by blast
qed

text \<open>
  Claim C3. When \<^verbatim>\<open>event.ExtractedResults\<close> is not empty, the response block is followed
  by the heading of the extra information, the heading of the extracted results, and
  then one item for each extracted string, \<^verbatim>\<open>- \<close> followed by the string and a line
  feed, in the order of the sequence; a line feed and the metadata list end the
  description. (An item is one line when the string holds no line feed.)
\<close>

theorem ExtractedResults_bullets:
  assumes "ExtractedResults event \<noteq> []"
  shows "jiraFormatDescription ext infoOrder metadataOrder event =
           Header_line ext event @ ''\<newline>\<newline>'' @
           Protocol_line ext event @ ''\<newline>\<newline>'' @
           Full_URL_line event @ ''\<newline>\<newline>'' @
           Timestamp_line ext event @ ''\<newline>\<newline>'' @
           Template_Information infoOrder @ ''\<newline>'' @
           Request_block event @ ''\<newline>\<newline>'' @
           Response_block event @
           ''\<newline>\<newline>*Extra Information*\<newline>\<newline>*Extracted results*:\<newline>\<newline>'' @
           concat (map (\<lambda>v. ''- '' @ v @ ''\<newline>'') (ExtractedResults event)) @
           ''\<newline>'' @
           Metadata_list ext metadataOrder event"
  using assms
  by (simp add: jiraFormatDescription_sections Extra_Information_def Extracted_results_list_def)

theorem ExtractedResults_bullets_witness:
  "ExtractedResults example_event \<noteq> []
   \<and> jiraFormatDescription example_ext [(''name'', ''Tech''), (''severity'', ''info'')]
        [(''port'', ''443'')] example_event =
      Header_line example_ext example_event @ ''\<newline>\<newline>'' @
      Protocol_line example_ext example_event @ ''\<newline>\<newline>'' @
      Full_URL_line example_event @ ''\<newline>\<newline>'' @
      Timestamp_line example_ext example_event @ ''\<newline>\<newline>'' @
      Template_Information [(''name'', ''Tech''), (''severity'', ''info'')] @ ''\<newline>'' @
      Request_block example_event @ ''\<newline>\<newline>'' @
      Response_block example_event @
      ''\<newline>\<newline>*Extra Information*\<newline>\<newline>*Extracted results*:\<newline>\<newline>- nginx\<newline>- php\<newline>\<newline>'' @
      Metadata_list example_ext [(''port'', ''443'')] example_event"
proof -
  have h: "ExtractedResults example_event \<noteq> []" by (simp add: example_event_def)
  have e: "ExtractedResults example_event = [''nginx'', ''php'']" by (simp add: example_event_def)
  show ?thesis
    using h ExtractedResults_bullets [OF h, of example_ext
        "[(''name'', ''Tech''), (''severity'', ''info'')]" "[(''port'', ''443'')]"]
    by (simp add: e)
qed

subsection \<open>Request and response\<close>

text \<open>
  Claim C4. Whatever bytes the request and the response of the event hold, the
  description has them unchanged between the fences: \<^verbatim>\<open>*Request*\<close>, an empty line,
  \<^verbatim>\<open>{code}\<close>, a line feed, the request, a line feed, \<^verbatim>\<open>{code}\<close>, and the same for the
  response. Nothing is escaped: the equation holds for every request and response.
\<close>

theorem Request_Response_verbatim:
  "jiraFormatDescription ext infoOrder metadataOrder event =
     Header_line ext event @ ''\<newline>\<newline>'' @
     Protocol_line ext event @ ''\<newline>\<newline>'' @
     Full_URL_line event @ ''\<newline>\<newline>'' @
     Timestamp_line ext event @ ''\<newline>\<newline>'' @
     Template_Information infoOrder @
     ''\<newline>*Request*\<newline>\<newline>{code}\<newline>'' @ Request event @
     ''\<newline>{code}\<newline>\<newline>*Response*\<newline>\<newline>{code}\<newline>'' @ Response event @
     ''\<newline>{code}\<newline>\<newline>'' @
     Extra_Information ext metadataOrder event"
  by (simp add: jiraFormatDescription_sections Request_block_def Response_block_def)

theorem Request_Response_verbatim_witness:
  "jiraFormatDescription example_ext [] [] markup_event =
     Header_line example_ext markup_event @ ''\<newline>\<newline>'' @
     Protocol_line example_ext markup_event @ ''\<newline>\<newline>'' @
     Full_URL_line markup_event @ ''\<newline>\<newline>'' @
     Timestamp_line example_ext markup_event @ ''\<newline>\<newline>'' @
     Template_Information [] @
     ''\<newline>*Request*\<newline>\<newline>{code}\<newline>*Extra Information*\<newline>{code}\<newline>\<newline>*Response*\<newline>\<newline>{code}\<newline>{code}|x|*y*\<newline>{code}\<newline>\<newline>'' @
     Extra_Information example_ext [] markup_event"
proof -
  have r: "Request markup_event = ''*Extra Information*''"
      "Response markup_event = ''{code}|x|*y*''"
    by (simp_all add: markup_event_def)
  show ?thesis
    using Request_Response_verbatim [of example_ext "[]" "[]" markup_event]
    by (simp add: r)
qed


subsection \<open>Creating the issue\<close>

text \<open>
  Claim C5. When the remote call returns an error with text \<open>msg\<close>, \<^verbatim>\<open>CreateIssue\<close>
  returns an error whose text is \<open>msg\<close>, then \<^verbatim>\<open> => \<close>, then the data read from the
  response: the bytes of the body when the response and its body are there, nothing
  otherwise. Both \<open>msg\<close> and the data are substrings of the text.
\<close>

theorem CreateIssue_error_text:
  assumes "jira i (fst (CreateIssue i ext infoOrder metadataOrder event)) = (resp, Some msg)"
  shows "snd (CreateIssue i ext infoOrder metadataOrder event) =
           Some (msg @ '' => '' @ response_data resp)
         \<and> sublist msg (msg @ '' => '' @ response_data resp)
         \<and> sublist (response_data resp) (msg @ '' => '' @ response_data resp)
         \<and> (\<forall>r body. resp = Some r \<and> Body r = Some body \<longrightarrow> response_data resp = body)"
proof -
  have "snd (CreateIssue i ext infoOrder metadataOrder event) =
      (case jira i (fst (CreateIssue i ext infoOrder metadataOrder event)) of
         (resp, Some e) \<Rightarrow> Some (Errorf e (response_data resp))
       | (resp, None) \<Rightarrow> None)"
    by (simp add: CreateIssue_def Let_def split: prod.splits option.splits)
  then have "snd (CreateIssue i ext infoOrder metadataOrder event) =
      Some (msg @ '' => '' @ response_data resp)"
    by (simp add: assms Errorf_def)
  moreover have "sublist (response_data resp) (msg @ '' => '' @ response_data resp)"
    using sublist_between [of "response_data resp" "response_data resp" "msg @ '' => ''" "[]"]
    by simp
  ultimately show ?thesis
    by (simp add: response_data_def)
qed

theorem CreateIssue_error_text_witness:
  "jira rejecting_integration
     (fst (CreateIssue rejecting_integration example_ext
        [(''name'', ''Tech''), (''severity'', ''info'')] [(''port'', ''443'')] example_event)) =
     (Some \<lparr>Body = Some ''{\"errorMessages\":[\"bad project\"]}''\<rparr>,
      Some ''request failed. Status code: 400'')
   \<and> snd (CreateIssue rejecting_integration example_ext
        [(''name'', ''Tech''), (''severity'', ''info'')] [(''port'', ''443'')] example_event) =
      Some ''request failed. Status code: 400 => {\"errorMessages\":[\"bad project\"]}''
   \<and> sublist ''bad project''
        ''request failed. Status code: 400 => {\"errorMessages\":[\"bad project\"]}''
   \<and> jira unreachable_integration
     (fst (CreateIssue unreachable_integration example_ext
        [(''name'', ''Tech''), (''severity'', ''info'')] [(''port'', ''443'')] example_event)) =
     (None, Some ''dial tcp: connection refused'')
   \<and> snd (CreateIssue unreachable_integration example_ext
        [(''name'', ''Tech''), (''severity'', ''info'')] [(''port'', ''443'')] example_event) =
      Some ''dial tcp: connection refused => ''"
proof -
  have h: "jira rejecting_integration
     (fst (CreateIssue rejecting_integration example_ext
        [(''name'', ''Tech''), (''severity'', ''info'')] [(''port'', ''443'')] example_event)) =
     (Some \<lparr>Body = Some ''{\"errorMessages\":[\"bad project\"]}''\<rparr>,
      Some ''request failed. Status code: 400'')"
    by (simp add: rejecting_integration_def)
  have u: "jira unreachable_integration
     (fst (CreateIssue unreachable_integration example_ext
        [(''name'', ''Tech''), (''severity'', ''info'')] [(''port'', ''443'')] example_event)) =
     (None, Some ''dial tcp: connection refused'')"
    by (simp add: unreachable_integration_def)
  have s: "sublist ''bad project''
        ''request failed. Status code: 400 => {\"errorMessages\":[\"bad project\"]}''"
    by code_simp
  show ?thesis
    using h u s CreateIssue_error_text [OF h] CreateIssue_error_text [OF u]
    by (simp add: response_data_def)
qed

text \<open>
  Claim C6. The issue that \<^verbatim>\<open>CreateIssue\<close> hands to the remote call has the configured
  account as assignee and as reporter, the configured issue type as the name of its
  type, the configured project name as the key of its project, the summary that
  \<^verbatim>\<open>format.Summary\<close> gives for the event, and the description that
  \<open>jiraFormatDescription\<close> gives for the event. The error returned is decided by
  the result of the remote call on this issue.
\<close>

theorem CreateIssue_payload:
  "jira_User.AccountID (Assignee (Fields (fst (CreateIssue i ext infoOrder metadataOrder event)))) =
     Options.AccountID (options i)
   \<and> jira_User.AccountID (Reporter (Fields (fst (CreateIssue i ext infoOrder metadataOrder event)))) =
     Options.AccountID (options i)
   \<and> Name (jira_IssueFields.Type (Fields (fst (CreateIssue i ext infoOrder metadataOrder event)))) =
     IssueType (options i)
   \<and> Key (Project (Fields (fst (CreateIssue i ext infoOrder metadataOrder event)))) =
     ProjectName (options i)
   \<and> Summary (Fields (fst (CreateIssue i ext infoOrder metadataOrder event))) =
     format_Summary ext event
   \<and> Description (Fields (fst (CreateIssue i ext infoOrder metadataOrder event))) =
     jiraFormatDescription ext infoOrder metadataOrder event
   \<and> snd (CreateIssue i ext infoOrder metadataOrder event) =
     (case jira i (fst (CreateIssue i ext infoOrder metadataOrder event)) of
        (resp, Some e) \<Rightarrow> Some (Errorf e (response_data resp))
      | (resp, None) \<Rightarrow> None)"
  by (simp add: CreateIssue_def Let_def split: prod.splits option.splits)

theorem CreateIssue_payload_witness:
  "fst (CreateIssue rejecting_integration example_ext
        [(''name'', ''Tech''), (''severity'', ''info'')] [(''port'', ''443'')] example_event) =
     \<lparr>Fields = \<lparr>
        Assignee = \<lparr>jira_User.AccountID = ''5b10a2844c20165700ede21g''\<rparr>,
        Reporter = \<lparr>jira_User.AccountID = ''5b10a2844c20165700ede21g''\<rparr>,
        Description = jiraFormatDescription example_ext
          [(''name'', ''Tech''), (''severity'', ''info'')] [(''port'', ''443'')] example_event,
        jira_IssueFields.Type = \<lparr>Name = ''Bug''\<rparr>,
        Project = \<lparr>Key = ''SEC''\<rparr>,
        Summary = ''[tech-detect] example.com''\<rparr>\<rparr>"
proof -
  have o: "options rejecting_integration = example_options"
    by (simp add: rejecting_integration_def)
  have f: "format_Summary example_ext example_event = ''[tech-detect] example.com''"
    by (simp add: example_ext_def example_event_def)
  show ?thesis
    using CreateIssue_payload [of rejecting_integration example_ext
        "[(''name'', ''Tech''), (''severity'', ''info'')]" "[(''port'', ''443'')]" example_event]
    by (cases "fst (CreateIssue rejecting_integration example_ext
        [(''name'', ''Tech''), (''severity'', ''info'')] [(''port'', ''443'')] example_event)")
       (auto simp: o f example_options_def split: prod.splits
         intro!: jira_IssueFields.equality jira_User.equality jira_IssueType.equality
           jira_Project.equality)
qed


subsection \<open>The lines of the header\<close>

text \<open>
  Claim C7. The timestamp line is \<^verbatim>\<open>*Timestamp*: \<close> followed by the event's time as
  \<^verbatim>\<open>Format\<close> renders it for the layout \<^verbatim>\<open>Mon Jan 2 15:04:05 -0700 MST 2006\<close>, and the
  rendering depends on the instant only: two events with the same timestamp have the
  same text on their timestamp lines, whatever else differs. (\<^verbatim>\<open>Format\<close> is Go's
  library method, a parameter here.)
\<close>

theorem Timestamp_line_format:
  assumes "Timestamp event' = Timestamp event"
  shows "jiraFormatDescription ext infoOrder metadataOrder event =
           Header_line ext event @ ''\<newline>\<newline>'' @
           Protocol_line ext event @ ''\<newline>\<newline>'' @
           Full_URL_line event @
           ''\<newline>\<newline>*Timestamp*: '' @
           time_Format ext (Timestamp event) ''Mon Jan 2 15:04:05 -0700 MST 2006'' @
           ''\<newline>\<newline>'' @
           Template_Information infoOrder @ ''\<newline>'' @
           Request_block event @ ''\<newline>\<newline>'' @
           Response_block event @ ''\<newline>\<newline>'' @
           Extra_Information ext metadataOrder event
         \<and> jiraFormatDescription ext infoOrder' metadataOrder' event' =
           Header_line ext event' @ ''\<newline>\<newline>'' @
           Protocol_line ext event' @ ''\<newline>\<newline>'' @
           Full_URL_line event' @
           ''\<newline>\<newline>*Timestamp*: '' @
           time_Format ext (Timestamp event) ''Mon Jan 2 15:04:05 -0700 MST 2006'' @
           ''\<newline>\<newline>'' @
           Template_Information infoOrder' @ ''\<newline>'' @
           Request_block event' @ ''\<newline>\<newline>'' @
           Response_block event' @ ''\<newline>\<newline>'' @
           Extra_Information ext metadataOrder' event'"
  by (simp add: jiraFormatDescription_sections Timestamp_line_def assms)

theorem Timestamp_line_format_witness:
  "Timestamp markup_event = Timestamp example_event
   \<and> jiraFormatDescription example_ext [] [] markup_event =
       Header_line example_ext markup_event @ ''\<newline>\<newline>'' @
       Protocol_line example_ext markup_event @ ''\<newline>\<newline>'' @
       Full_URL_line markup_event @
       ''\<newline>\<newline>*Timestamp*: Mon Jan 2 15:04:05 -0700 MST 2006\<newline>\<newline>'' @
       Template_Information [] @ ''\<newline>'' @
       Request_block markup_event @ ''\<newline>\<newline>'' @
       Response_block markup_event @ ''\<newline>\<newline>'' @
       Extra_Information example_ext [] markup_event"
proof -
  have h: "Timestamp markup_event = Timestamp example_event" by simp
  have t: "time_Format example_ext t l = l" for t l
    by (simp add: example_ext_def)
  show ?thesis
    using h Timestamp_line_format [OF h, of example_ext
        "[(''name'', ''Tech''), (''severity'', ''info'')]" "[(''port'', ''443'')]" "[]" "[]"]
    by (simp add: t)
qed

text \<open>
  Claim C8. The description is, in this order: the details line with the template
  name and the host, the protocol line, the line of the full URL, the timestamp line,
  the table of template information, the request block and the response block (and
  then the extra information). The protocol line carries the event's type in upper
  case: when the type is made of ASCII bytes, each of its letters \<^verbatim>\<open>a\<close> to \<^verbatim>\<open>z\<close> is
  replaced by the capital letter at the same place of the alphabet and every other
  byte is kept; when the type has a byte outside ASCII, it is the type as the Unicode
  mapping of the library gives it.
\<close>

theorem sections_in_order:
  "jiraFormatDescription ext infoOrder metadataOrder event =
     ''*Details*: *'' @ format_GetMatchedTemplate ext event @ ''*  matched at '' @ Host event @
     ''\<newline>\<newline>*Protocol*: '' @
     strings_ToUpper (unicode_ToUpper ext) (ResultEvent.Type event) @
     ''\<newline>\<newline>*Full URL*: '' @ Matched event @
     ''\<newline>\<newline>*Timestamp*: '' @
     time_Format ext (Timestamp event) ''Mon Jan 2 15:04:05 -0700 MST 2006'' @
     ''\<newline>\<newline>*Template Information*\<newline>\<newline>| Key | Value |\<newline>'' @
     concat (map (\<lambda>(k, v). ''| '' @ k @ '' | '' @ v @ '' |\<newline>'') infoOrder) @
     ''\<newline>*Request*\<newline>\<newline>{code}\<newline>'' @ Request event @
     ''\<newline>{code}\<newline>\<newline>*Response*\<newline>\<newline>{code}\<newline>'' @ Response event @
     ''\<newline>{code}\<newline>\<newline>'' @
     Extra_Information ext metadataOrder event
   \<and> (list_all (\<lambda>c. of_char c < (128::nat)) (ResultEvent.Type event) \<longrightarrow>
        strings_ToUpper (unicode_ToUpper ext) (ResultEvent.Type event) =
        map (\<lambda>c. case map_of (zip ''abcdefghijklmnopqrstuvwxyz''
                                   ''ABCDEFGHIJKLMNOPQRSTUVWXYZ'') c of
                    Some C \<Rightarrow> C | None \<Rightarrow> c)
          (ResultEvent.Type event))
   \<and> (\<not> list_all (\<lambda>c. of_char c < (128::nat)) (ResultEvent.Type event) \<longrightarrow>
        strings_ToUpper (unicode_ToUpper ext) (ResultEvent.Type event) =
        unicode_ToUpper ext (ResultEvent.Type event))"
proof -
  have "map ascii_upper s =
      map (\<lambda>c. case map_of (zip ''abcdefghijklmnopqrstuvwxyz''
                                 ''ABCDEFGHIJKLMNOPQRSTUVWXYZ'') c of
                  Some C \<Rightarrow> C | None \<Rightarrow> c) s" for s
    by (rule map_cong [OF refl]) (rule ascii_upper_table)
  then show ?thesis
    by (simp only: strings_ToUpper_def if_True if_False simp_thms
        jiraFormatDescription_sections Header_line_def Protocol_line_def
        Full_URL_line_def Timestamp_line_def Template_Information_def Request_block_def
        Response_block_def append_assoc split: if_splits) auto
qed

theorem sections_in_order_witness:
  "list_all (\<lambda>c. of_char c < (128::nat)) (ResultEvent.Type example_event)
   \<and> jiraFormatDescription example_ext [(''name'', ''Tech''), (''severity'', ''info'')]
        [(''port'', ''443'')] example_event =
       ''*Details*: *tech-detect*  matched at example.com\<newline>\<newline>*Protocol*: HTTP\<newline>\<newline>*Full URL*: https://example.com/x\<newline>\<newline>*Timestamp*: Mon Jan 2 15:04:05 -0700 MST 2006\<newline>\<newline>*Template Information*\<newline>\<newline>| Key | Value |\<newline>| name | Tech |\<newline>| severity | info |\<newline>\<newline>*Request*\<newline>\<newline>{code}\<newline>GET /x HTTP/1.1\<newline>{code}\<newline>\<newline>*Response*\<newline>\<newline>{code}\<newline>HTTP/1.1 200 OK\<newline>{code}\<newline>\<newline>'' @
       Extra_Information example_ext [(''port'', ''443'')] example_event
   \<and> strings_ToUpper (unicode_ToUpper example_ext) (ResultEvent.Type example_event) = ''HTTP''
   \<and> \<not> list_all (\<lambda>c. of_char c < (128::nat)) (ResultEvent.Type accented_event)
   \<and> strings_ToUpper (unicode_ToUpper accented_ext) (ResultEvent.Type accented_event) =
       [CHR 0xC3, CHR 0x89]"
proof -
  have a: "list_all (\<lambda>c. of_char c < (128::nat)) (ResultEvent.Type example_event)"
    by code_simp
  have n: "\<not> list_all (\<lambda>c. of_char c < (128::nat)) (ResultEvent.Type accented_event)"
    by code_simp
  have f: "ResultEvent.Type example_event = ''http''" "Host example_event = ''example.com''"
    "Matched example_event = ''https://example.com/x''"
    "Request example_event = ''GET /x HTTP/1.1''" "Response example_event = ''HTTP/1.1 200 OK''"
    "format_GetMatchedTemplate example_ext e = ''tech-detect''"
    "time_Format example_ext t l = l" for e t l
    by (simp_all add: example_event_def example_ext_def)
  note whole = sections_in_order [of example_ext
      "[(''name'', ''Tech''), (''severity'', ''info'')]" "[(''port'', ''443'')]" example_event,
      THEN conjunct1]
  note ascii = sections_in_order [of example_ext
      "[(''name'', ''Tech''), (''severity'', ''info'')]" "[(''port'', ''443'')]" example_event,
      THEN conjunct2, THEN conjunct1, rule_format, OF a]
  note other = sections_in_order [of accented_ext "[]" "[]" accented_event,
      THEN conjunct2, THEN conjunct2, rule_format, OF n]
  have d: "jiraFormatDescription example_ext [(''name'', ''Tech''), (''severity'', ''info'')]
        [(''port'', ''443'')] example_event =
       ''*Details*: *tech-detect*  matched at example.com\<newline>\<newline>*Protocol*: HTTP\<newline>\<newline>*Full URL*: https://example.com/x\<newline>\<newline>*Timestamp*: Mon Jan 2 15:04:05 -0700 MST 2006\<newline>\<newline>*Template Information*\<newline>\<newline>| Key | Value |\<newline>| name | Tech |\<newline>| severity | info |\<newline>\<newline>*Request*\<newline>\<newline>{code}\<newline>GET /x HTTP/1.1\<newline>{code}\<newline>\<newline>*Response*\<newline>\<newline>{code}\<newline>HTTP/1.1 200 OK\<newline>{code}\<newline>\<newline>'' @
       Extra_Information example_ext [(''port'', ''443'')] example_event"
    unfolding whole by (simp add: f strings_ToUpper_http)
  have u: "strings_ToUpper (unicode_ToUpper example_ext) (ResultEvent.Type example_event) =
      ''HTTP''"
    unfolding ascii by (simp add: f)
  have v: "strings_ToUpper (unicode_ToUpper accented_ext) (ResultEvent.Type accented_event) =
      [CHR 0xC3, CHR 0x89]"
    unfolding other by (simp add: accented_ext_def accented_event_def)
  from a d u n v show ?thesis by (intro conjI)
qed

subsection \<open>Determinism\<close>

text \<open>
  Claim C9, as stated, says that two runs of the formatter on the same event give the
  same string. The two loops over maps visit the entries in an order that Go does
  not fix, and two runs on an event with two entries of template information that
  visit them in different orders give different strings.
\<close>

theorem determinism_counterexample:
  "range_order (Info example_event) [(''name'', ''Tech''), (''severity'', ''info'')]
   \<and> range_order (Info example_event) [(''severity'', ''info''), (''name'', ''Tech'')]
   \<and> range_order (Metadata example_event) [(''port'', ''443'')]
   \<and> jiraFormatDescription example_ext [(''name'', ''Tech''), (''severity'', ''info'')]
        [(''port'', ''443'')] example_event \<noteq>
      jiraFormatDescription example_ext [(''severity'', ''info''), (''name'', ''Tech'')]
        [(''port'', ''443'')] example_event"
  by code_simp

text \<open>
  Claim C9, amended. Two runs of the formatter on the same event agree up to the
  order of the rows of the table and of the items of the metadata list: there are
  three texts \<open>P\<close>, \<open>Q\<close> and \<open>R\<close> such that each run gives \<open>P\<close>, the rows in the order
  of its visit of the template information, \<open>Q\<close>, the metadata items in the order of
  its visit of the metadata, and \<open>R\<close>. The rows of the two runs are the same up to
  their order, and so are the items; so the two strings have the same length and the
  same bytes with the same multiplicities. When the template information and the
  metadata have at most one entry each, the two strings are identical.
\<close>

theorem determinism_up_to_range_order:
  assumes "range_order (Info event) infoOrder" and "range_order (Info event) infoOrder'"
    and "range_order (Metadata event) metadataOrder"
    and "range_order (Metadata event) metadataOrder'"
  shows "(\<exists>P Q R.
            jiraFormatDescription ext infoOrder metadataOrder event =
              P @ concat (map (\<lambda>(k, v). ''| '' @ k @ '' | '' @ v @ '' |\<newline>'') infoOrder) @
              Q @ concat (map (\<lambda>(k, v). ''- '' @ k @ '': '' @ types_ToString ext v @ ''\<newline>'')
                    metadataOrder) @
              R
          \<and> jiraFormatDescription ext infoOrder' metadataOrder' event =
              P @ concat (map (\<lambda>(k, v). ''| '' @ k @ '' | '' @ v @ '' |\<newline>'') infoOrder') @
              Q @ concat (map (\<lambda>(k, v). ''- '' @ k @ '': '' @ types_ToString ext v @ ''\<newline>'')
                    metadataOrder') @
              R)
         \<and> mset infoOrder = mset infoOrder'
         \<and> mset metadataOrder = mset metadataOrder'
         \<and> mset (jiraFormatDescription ext infoOrder metadataOrder event) =
           mset (jiraFormatDescription ext infoOrder' metadataOrder' event)
         \<and> length (jiraFormatDescription ext infoOrder metadataOrder event) =
           length (jiraFormatDescription ext infoOrder' metadataOrder' event)
         \<and> (Mapping.size (Info event) \<le> 1 \<and> Mapping.size (Metadata event) \<le> 1 \<longrightarrow>
              jiraFormatDescription ext infoOrder metadataOrder event =
              jiraFormatDescription ext infoOrder' metadataOrder' event)"
proof -
  let ?row = "\<lambda>(k, v). ''| '' @ k @ '' | '' @ v @ '' |\<newline>''"
  let ?item = "\<lambda>(k, v). ''- '' @ k @ '': '' @ types_ToString ext v @ ''\<newline>''"
  let ?P = "Header_line ext event @ ''\<newline>\<newline>'' @
      Protocol_line ext event @ ''\<newline>\<newline>'' @
      Full_URL_line event @ ''\<newline>\<newline>'' @
      Timestamp_line ext event @
      ''\<newline>\<newline>*Template Information*\<newline>\<newline>| Key | Value |\<newline>''"
  let ?B = "''\<newline>'' @ Request_block event @ ''\<newline>\<newline>'' @
      Response_block event @ ''\<newline>\<newline>''"
  have i: "mset infoOrder = mset infoOrder'"
    using assms(1,2) by (rule range_order_mset)
  have m: "mset metadataOrder = mset metadataOrder'"
    using assms(3,4) by (rule range_order_mset)
  have shape: "\<exists>P Q R.
      jiraFormatDescription ext infoOrder metadataOrder event =
        P @ concat (map ?row infoOrder) @ Q @ concat (map ?item metadataOrder) @ R
      \<and> jiraFormatDescription ext infoOrder' metadataOrder' event =
        P @ concat (map ?row infoOrder') @ Q @ concat (map ?item metadataOrder') @ R"
  proof (cases "Mapping.is_empty (Metadata event)")
    case True
    have e: "metadataOrder = []" "metadataOrder' = []"
      using True range_order_is_empty [OF assms(3)] range_order_is_empty [OF assms(4)]
      by blast+
    let ?Q = "?B @ Extra_Information ext [] event"
    have "jiraFormatDescription ext io [] event =
        ?P @ concat (map ?row io) @ ?Q @ concat (map ?item []) @ []" for io
      by (simp add: jiraFormatDescription_sections Template_Information_def)
    then show ?thesis unfolding e by blast
  next
    case False
    let ?Q = "?B @ ''*Extra Information*\<newline>\<newline>'' @ Extracted_results_list event @
        ''*Metadata*:\<newline>\<newline>''"
    have "jiraFormatDescription ext io mo event =
        ?P @ concat (map ?row io) @ ?Q @ concat (map ?item mo) @ ''\<newline>''" for io mo
      using False
      by (simp add: jiraFormatDescription_sections Template_Information_def
          Extra_Information_def Metadata_list_def)
    then show ?thesis by blast
  qed
  have d: "mset (jiraFormatDescription ext infoOrder metadataOrder event) =
      mset (jiraFormatDescription ext infoOrder' metadataOrder' event)"
    by (simp add: jiraFormatDescription_sections Template_Information_def
        Extra_Information_def Metadata_list_def mset_concat_map i m)
  have l: "length (jiraFormatDescription ext infoOrder metadataOrder event) =
      length (jiraFormatDescription ext infoOrder' metadataOrder' event)"
    using d by (rule mset_eq_length)
  have "infoOrder = infoOrder'" if "Mapping.size (Info event) \<le> 1"
    using assms(1,2) that by (rule range_order_unique)
  moreover have "metadataOrder = metadataOrder'" if "Mapping.size (Metadata event) \<le> 1"
    using assms(3,4) that by (rule range_order_unique)
  ultimately have same: "Mapping.size (Info event) \<le> 1 \<and> Mapping.size (Metadata event) \<le> 1 \<longrightarrow>
      jiraFormatDescription ext infoOrder metadataOrder event =
      jiraFormatDescription ext infoOrder' metadataOrder' event"
    by blast
  from shape i m d l same show ?thesis by (intro conjI)
qed

theorem determinism_up_to_range_order_witness:
  "range_order (Info example_event) [(''name'', ''Tech''), (''severity'', ''info'')]
   \<and> range_order (Info example_event) [(''severity'', ''info''), (''name'', ''Tech'')]
   \<and> range_order (Metadata example_event) [(''port'', ''443'')]
   \<and> (\<exists>P Q R.
        jiraFormatDescription example_ext [(''name'', ''Tech''), (''severity'', ''info'')]
          [(''port'', ''443'')] example_event =
          P @ ''| name | Tech |\<newline>| severity | info |\<newline>'' @ Q @ ''- port: 443\<newline>'' @ R
      \<and> jiraFormatDescription example_ext [(''severity'', ''info''), (''name'', ''Tech'')]
          [(''port'', ''443'')] example_event =
          P @ ''| severity | info |\<newline>| name | Tech |\<newline>'' @ Q @ ''- port: 443\<newline>'' @ R)
   \<and> range_order (Info single_entry_event) [(''severity'', ''info'')]
   \<and> range_order (Metadata single_entry_event) [(''port'', ''443'')]
   \<and> Mapping.size (Info single_entry_event) \<le> 1
   \<and> Mapping.size (Metadata single_entry_event) \<le> 1"
proof -
  have h1: "range_order (Info example_event) [(''name'', ''Tech''), (''severity'', ''info'')]"
    by code_simp
  have h2: "range_order (Info example_event) [(''severity'', ''info''), (''name'', ''Tech'')]"
    by code_simp
  have h3: "range_order (Metadata example_event) [(''port'', ''443'')]"
    by code_simp
  have s1: "range_order (Info single_entry_event) [(''severity'', ''info'')]"
    by code_simp
  have s3: "range_order (Metadata single_entry_event) [(''port'', ''443'')]"
    by code_simp
  have s4: "Mapping.size (Info single_entry_event) \<le> 1"
      "Mapping.size (Metadata single_entry_event) \<le> 1"
    by code_simp+
  have t: "types_ToString example_ext v = v" for v
    by (simp add: example_ext_def)
  note shape = determinism_up_to_range_order [OF h1 h2 h3 h3, of example_ext, THEN conjunct1]
  have "\<exists>P Q R.
        jiraFormatDescription example_ext [(''name'', ''Tech''), (''severity'', ''info'')]
          [(''port'', ''443'')] example_event =
          P @ ''| name | Tech |\<newline>| severity | info |\<newline>'' @ Q @ ''- port: 443\<newline>'' @ R
      \<and> jiraFormatDescription example_ext [(''severity'', ''info''), (''name'', ''Tech'')]
          [(''port'', ''443'')] example_event =
          P @ ''| severity | info |\<newline>| name | Tech |\<newline>'' @ Q @ ''- port: 443\<newline>'' @ R"
    using shape by (simp add: t)
  with h1 h2 h3 s1 s3 s4 show ?thesis by (intro conjI)
qed

subsection \<open>The heading of the table\<close>

text \<open>
  Claim C10. Every description holds the heading \<^verbatim>\<open>*Template Information*\<close>, an empty
  line and the header row \<^verbatim>\<open>| Key | Value |\<close>, whatever the event; when
  \<^verbatim>\<open>event.Info\<close> is empty the header row is followed at once by the empty line before
  the request block, a table of the header alone.
\<close>

theorem Template_Information_always_present:
  assumes "range_order (Info event) infoOrder"
  shows "sublist ''*Template Information*\<newline>\<newline>| Key | Value |\<newline>''
           (jiraFormatDescription ext infoOrder metadataOrder event)
         \<and> jiraFormatDescription ext infoOrder metadataOrder event =
           Header_line ext event @ ''\<newline>\<newline>'' @
           Protocol_line ext event @ ''\<newline>\<newline>'' @
           Full_URL_line event @ ''\<newline>\<newline>'' @
           Timestamp_line ext event @ ''\<newline>\<newline>'' @
           ''*Template Information*\<newline>\<newline>| Key | Value |\<newline>'' @
           concat (map (\<lambda>(k, v). ''| '' @ k @ '' | '' @ v @ '' |\<newline>'') infoOrder) @
           ''\<newline>'' @
           Request_block event @ ''\<newline>\<newline>'' @
           Response_block event @ ''\<newline>\<newline>'' @
           Extra_Information ext metadataOrder event
         \<and> (Mapping.is_empty (Info event) \<longrightarrow>
             jiraFormatDescription ext infoOrder metadataOrder event =
               Header_line ext event @ ''\<newline>\<newline>'' @
               Protocol_line ext event @ ''\<newline>\<newline>'' @
               Full_URL_line event @ ''\<newline>\<newline>'' @
               Timestamp_line ext event @ ''\<newline>\<newline>'' @
               ''*Template Information*\<newline>\<newline>| Key | Value |\<newline>'' @
               ''\<newline>'' @
               Request_block event @ ''\<newline>\<newline>'' @
               Response_block event @ ''\<newline>\<newline>'' @
               Extra_Information ext metadataOrder event)"
proof -
  let ?h = "''*Template Information*\<newline>\<newline>| Key | Value |\<newline>''"
  let ?rows = "concat (map (\<lambda>(k, v). ''| '' @ k @ '' | '' @ v @ '' |\<newline>'') infoOrder)"
  let ?before = "Header_line ext event @ ''\<newline>\<newline>'' @
      Protocol_line ext event @ ''\<newline>\<newline>'' @
      Full_URL_line event @ ''\<newline>\<newline>'' @
      Timestamp_line ext event @ ''\<newline>\<newline>''"
  let ?after = "''\<newline>'' @
      Request_block event @ ''\<newline>\<newline>'' @
      Response_block event @ ''\<newline>\<newline>'' @
      Extra_Information ext metadataOrder event"
  have whole: "jiraFormatDescription ext infoOrder metadataOrder event =
      ?before @ ?h @ ?rows @ ?after"
    by (simp add: jiraFormatDescription_sections Template_Information_def)
  have "sublist ?h (?before @ ?h @ (?rows @ ?after))"
    by (rule sublist_appendI)
  then have present: "sublist ?h (jiraFormatDescription ext infoOrder metadataOrder event)"
    by (simp add: whole)
  have "infoOrder = []" if "Mapping.is_empty (Info event)"
    using assms that by (simp add: range_order_is_empty)
  then show ?thesis
    using present whole by auto
qed

theorem Template_Information_always_present_witness:
  "range_order (Info markup_event) []
   \<and> Mapping.is_empty (Info markup_event)
   \<and> sublist ''*Template Information*\<newline>\<newline>| Key | Value |\<newline>''
       (jiraFormatDescription example_ext [] [] markup_event)
   \<and> jiraFormatDescription example_ext [] [] markup_event =
       Header_line example_ext markup_event @ ''\<newline>\<newline>'' @
       Protocol_line example_ext markup_event @ ''\<newline>\<newline>'' @
       Full_URL_line markup_event @ ''\<newline>\<newline>'' @
       Timestamp_line example_ext markup_event @ ''\<newline>\<newline>'' @
       ''*Template Information*\<newline>\<newline>| Key | Value |\<newline>'' @
       ''\<newline>'' @
       Request_block markup_event @ ''\<newline>\<newline>'' @
       Response_block markup_event @ ''\<newline>\<newline>'' @
       Extra_Information example_ext [] markup_event"
proof -
  have h: "range_order (Info markup_event) []" by code_simp
  have e: "Mapping.is_empty (Info markup_event)" by code_simp
  show ?thesis
    using h e Template_Information_always_present [OF h, of example_ext "[]"]
    by blast
qed

end
